theory Spec2Isabelle
  imports Main
begin

section \<open>kubectl set selector: data model\<close>

text \<open>
  The development embeds \<^verbatim>\<open>pkg/kubectl/cmd/set/set_selector.go\<close>. A Go
  \<^verbatim>\<open>map[string]string\<close> is a partial function from keys to values, wrapped in
  \<open>option\<close> because the source distinguishes the nil map (\<open>None\<close>) from an allocated one.
\<close>

type_synonym labels = "string \<rightharpoonup> string"

type_synonym bytes = string

text \<open>
  \<^verbatim>\<open>metav1.LabelSelectorRequirement\<close> and \<^verbatim>\<open>metav1.LabelSelector\<close> are declared
  in apimachinery; the file reads only \<^verbatim>\<open>MatchLabels\<close> and \<^verbatim>\<open>MatchExpressions\<close>.
\<close>

record LabelSelectorRequirement =
  Key :: string
  Operator :: string
  Values :: "string list"

record LabelSelector =
  MatchLabels :: "labels option"
  MatchExpressions :: "LabelSelectorRequirement list"

text \<open>
  Error values. \<open>Errorf\<close> is \<^verbatim>\<open>fmt.Errorf\<close> with a constant message; the two
  formatted messages of the file carry their arguments; \<open>External\<close> stands for an
  error value handed back by a collaborator (parser, factory, encoder, REST helper,
  printer); \<open>Panic\<close> is a run-time panic, reported as the outcome of the call that
  raised it; \<open>Aggregated\<close> collects the errors of a batch.
\<close>

datatype error =
    Errorf string
  | MatchExpressionNotSupported "LabelSelectorRequirement list"
      \<comment> \<open>\<^verbatim>\<open>"match expression %v not supported on this object"\<close>\<close>
  | ChangesCantBeRecorded string string error
      \<comment> \<open>\<^verbatim>\<open>"changes to %s/%s can't be recorded: %v\n"\<close>\<close>
  | LocalResourceError
  | External string
  | Panic string
  | Aggregated "error list"

text \<open>
  \<^verbatim>\<open>v1.Service\<close> is declared in \<^verbatim>\<open>k8s.io/api/core/v1\<close>. Its parts that the file does
  not touch are parameters: \<open>'m\<close> the type and object metadata, \<open>'p\<close> the fields of
  the spec other than the selector, \<open>'s\<close> the status. \<open>'k\<close> is the type of the
  objects of every other kind behind \<^verbatim>\<open>runtime.Object\<close>.
\<close>

record 'p ServiceSpec =
  Selector :: "labels option"
  OtherSpecFields :: 'p

record ('m, 'p, 's) Service =
  ObjectMeta :: 'm
  Spec :: "'p ServiceSpec"
  Status :: 's

datatype ('m, 'p, 's, 'k) Object =
    ServiceObj "('m, 'p, 's) Service"
  | OtherKind 'k

section \<open>The object mutator\<close>

text \<open>A \<^verbatim>\<open>range\<close> over a map visits each of its entries; over the nil map, none.\<close>

definition entries :: "labels option \<Rightarrow> labels" where
  "entries m = (case m of None \<Rightarrow> Map.empty | Some f \<Rightarrow> f)"

text \<open>
  The closure \<^verbatim>\<open>copyOldSelector\<close> of \<^verbatim>\<open>updateSelectorForObject\<close>. It returns the
  pair \<^verbatim>\<open>(map, error)\<close> of the source: \<^verbatim>\<open>(nil, err)\<close> when there are match
  expressions, otherwise a map made empty and then assigned every entry of
  \<^verbatim>\<open>selector.MatchLabels\<close>.
\<close>

definition copyOldSelector :: "LabelSelector \<Rightarrow> labels option \<times> error option" where
  "copyOldSelector selector =
     (if length (MatchExpressions selector) > 0
      then (None, Some (MatchExpressionNotSupported (MatchExpressions selector)))
      else (let dst = Map.empty;
                dst = dst ++ entries (MatchLabels selector)
            in (Some dst, None)))"

text \<open>
  \<^verbatim>\<open>updateSelectorForObject\<close> mutates the object behind the interface and returns an
  error; the model returns the object after the call together with the error. In the
  \<^verbatim>\<open>*v1.Service\<close> case the tuple assignment stores the first component of
  \<^verbatim>\<open>copyOldSelector()\<close> into \<^verbatim>\<open>t.Spec.Selector\<close> whether or not the second is nil.
\<close>

fun updateSelectorForObject ::
  "('m, 'p, 's, 'k) Object \<Rightarrow> LabelSelector \<Rightarrow> ('m, 'p, 's, 'k) Object \<times> error option" where
  "updateSelectorForObject (ServiceObj t) selector =
     (case copyOldSelector selector of
        (sel, err) \<Rightarrow> (ServiceObj (t\<lparr>Spec := (Spec t)\<lparr>Selector := sel\<rparr>\<rparr>), err))"
| "updateSelectorForObject (OtherKind k) selector =
     (OtherKind k, Some (Errorf ''setting a selector is only supported for Services''))"

section \<open>Arguments and validation\<close>

text \<open>
  \<^verbatim>\<open>metav1.ParseToLabelSelector\<close> is a function of apimachinery and a parameter here:
  \<open>Inl\<close> is its error (returned with a nil selector), \<open>Inr\<close> the selector it built.
  \<^verbatim>\<open>getResourcesAndSelector\<close> returns the three results of the source.
\<close>

definition getResourcesAndSelector ::
  "(string \<Rightarrow> error + LabelSelector) \<Rightarrow> string list
     \<Rightarrow> string list \<times> LabelSelector option \<times> error option" where
  "getResourcesAndSelector ParseToLabelSelector args =
     (if length args = 0 then ([], None, None)
      else (let resources = take (length args - 1) args
            in case ParseToLabelSelector (args ! (length args - 1)) of
                 Inl err \<Rightarrow> (resources, None, Some err)
               | Inr selector \<Rightarrow> (resources, Some selector, None)))"

text \<open>
  Modelled from the spec: \<^verbatim>\<open>cmdutil.IsFilenameSliceEmpty\<close> is not in the file; the
  configuration error is raised when "no targets [are] specified", so the helper holds
  exactly of the empty filename list.
\<close>

definition IsFilenameSliceEmpty :: "string list \<Rightarrow> bool" where
  "IsFilenameSliceEmpty filenames = (length filenames = 0)"

text \<open>
  \<^verbatim>\<open>SelectorOptions\<close>. The builder is the sequence of configuration calls made on
  it (\<^verbatim>\<open>resource.Builder\<close> is not in the file); \<^verbatim>\<open>PrintFlags\<close> is a parameter
  \<open>'pf\<close>; \<^verbatim>\<open>PrintObj\<close> takes the object and writes to \<^verbatim>\<open>o.out\<close>, returning its
  error. The fields \<^verbatim>\<open>mapper\<close> and \<^verbatim>\<open>ClientForMapping\<close> are stored by
  \<^verbatim>\<open>Complete\<close> and never read in the file; they are left out. The fields \<^verbatim>\<open>record\<close> and
  \<^verbatim>\<open>output\<close> are \<open>record_opt\<close> and \<open>output_opt\<close>, and the receiver \<^verbatim>\<open>o\<close> is
  written \<open>opts\<close>.
\<close>

record FilenameOptions =
  Filenames :: "string list"
  Recursive :: bool

datatype builder_call =
    Internal
  | LocalParam bool
  | ContinueOnError
  | NamespaceParam string
  | DefaultNamespaceCall
  | FilenameParam bool FilenameOptions
  | IncludeUninitialized bool
  | Flatten
  | ResourceTypeOrNameArgs bool "string list"
  | Latest

record ('o, 'pf) SelectorOptions =
  fileOptions :: FilenameOptions
  PrintFlags :: 'pf
  local :: bool
  dryrun :: bool
  all :: bool
  record_opt :: bool
  changeCause :: string
  output_opt :: string
  resources :: "string list"
  selector :: "LabelSelector option"
  PrintObj :: "'o \<Rightarrow> error option"
  builder :: "builder_call list"

definition Validate :: "('o, 'pf) SelectorOptions \<Rightarrow> error option" where
  "Validate opts =
     (if length (resources opts) < 1 \<and> IsFilenameSliceEmpty (Filenames (fileOptions opts))
      then Some (Errorf
        ''one or more resources must be specified as <resource> <name> or <resource>/<name>'')
      else if selector opts = None
      then Some (Errorf ''one selector is required'')
      else None)"

section \<open>Completing the options\<close>

text \<open>
  The flags read from the \<^verbatim>\<open>cobra.Command\<close>, and the results of the calls on the
  factory and on the print flags, which are code outside the file.
\<close>

record Cmd =
  flag_local :: bool
  flag_all :: bool
  flag_record :: bool
  flag_dry_run :: bool
  flag_output :: string
  flag_include_uninitialized :: bool

record ('o, 'pf) Factory =
  DefaultNamespace :: "error + string \<times> bool"
  Command :: string
  NewBuilder :: "builder_call list"
  ParseToLabelSelector :: "string \<Rightarrow> error + LabelSelector"
  PrintFlagsComplete :: "'pf \<Rightarrow> string \<Rightarrow> 'pf"
  ToPrinter :: "'pf \<Rightarrow> error + ('o \<Rightarrow> error option)"

text \<open>
  \<^verbatim>\<open>Complete\<close> assigns the fields of \<^verbatim>\<open>o\<close> as it goes and may return early; the
  model returns the options as they are at the return, with the error.
  \<open>Complete_printer\<close> is the end of the function, from \<^verbatim>\<open>if o.dryrun\<close> on, which
  both branches of \<^verbatim>\<open>if !o.local\<close> reach unless the second returns.
\<close>

definition Complete_printer ::
  "('o, 'pf) SelectorOptions \<Rightarrow> ('o, 'pf) Factory \<Rightarrow> ('o, 'pf) SelectorOptions \<times> error option" where
  "Complete_printer opts f =
     (let opts = (if dryrun opts
                  then opts\<lparr>PrintFlags := PrintFlagsComplete f (PrintFlags opts) ''%s (dry run)''\<rparr>
                  else opts)
      in case ToPrinter f (PrintFlags opts) of
           Inl err \<Rightarrow> (opts, Some err)
         | Inr printer \<Rightarrow> (opts\<lparr>PrintObj := printer\<rparr>, None))"

definition Complete ::
  "('o, 'pf) SelectorOptions \<Rightarrow> ('o, 'pf) Factory \<Rightarrow> Cmd \<Rightarrow> string list
     \<Rightarrow> ('o, 'pf) SelectorOptions \<times> error option" where
  "Complete opts f cmd args =
     (let opts = opts\<lparr>local := flag_local cmd, all := flag_all cmd,
                      record_opt := flag_record cmd, dryrun := flag_dry_run cmd,
                      output_opt := flag_output cmd\<rparr>
      in case DefaultNamespace f of
           Inl err \<Rightarrow> (opts, Some err)
         | Inr (cmdNamespace, enforceNamespace) \<Rightarrow>
             (let opts = opts\<lparr>changeCause := Command f\<rparr>
              in case getResourcesAndSelector (ParseToLabelSelector f) args of
                   (rs, sel, err) \<Rightarrow>
                     (let opts = opts\<lparr>resources := rs, selector := sel\<rparr>
                      in if err \<noteq> None then (opts, err)
                         else
                           (let includeUninitialized = flag_include_uninitialized cmd;
                                opts = opts\<lparr>builder := NewBuilder f @
                                      [Internal, LocalParam (local opts), ContinueOnError,
                                       NamespaceParam cmdNamespace, DefaultNamespaceCall,
                                       FilenameParam enforceNamespace (fileOptions opts),
                                       IncludeUninitialized includeUninitialized, Flatten]\<rparr>
                            in if \<not> local opts
                               then Complete_printer
                                      (opts\<lparr>builder := builder opts @
                                           [ResourceTypeOrNameArgs (all opts) (resources opts), Latest]\<rparr>) f
                               else if length (resources opts) > 0
                               then (opts, Some LocalResourceError)
                               else Complete_printer opts f))))"

section \<open>Running the command\<close>

text \<open>
  \<^verbatim>\<open>resource.Info\<close> with the fields the file reads; \<open>Resource\<close> is
  \<^verbatim>\<open>info.Mapping.Resource\<close>. The client and the mapping are seen by the REST helper
  through the whole \<open>Info\<close>.
\<close>

record 'o Info =
  Object :: 'o
  Namespace :: string
  Name :: string
  Resource :: string

text \<open>
  Modelled from the spec: the type \<^verbatim>\<open>Patch\<close> is declared in another file of the
  package. The patch record "ties one Target Object to (a) the serialized pre-mutation
  form, (b) the serialized post-mutation form, (c) the computed difference document,
  (d) a terminal error if computation failed".
\<close>

record 'o Patch =
  Info :: "'o Info"
  Before :: bytes
  After :: bytes
  Patch :: bytes
  Err :: "error option"

text \<open>
  Modelled from the spec: \<^verbatim>\<open>CalculatePatch\<close> is defined in another file of the
  package. It serialises the current state of the object with the supplied encoder,
  invokes the mutation, which mutates the object in place and returns the modified
  bytes or an error, and, when the mutation succeeds, computes the difference of the two
  serialized forms, whose schema depends on the kind of the object. It surfaces the
  encoding failure, the mutation failure (no patch is produced, and the object stays as
  the mutation left it) and the failure of the difference. The encoder and the
  difference are parameters.
\<close>

definition CalculatePatch ::
  "'o Patch \<Rightarrow> ('o \<Rightarrow> error + bytes) \<Rightarrow> ('o Info \<Rightarrow> 'o Info \<times> (error + bytes))
     \<Rightarrow> (bytes \<Rightarrow> bytes \<Rightarrow> 'o \<Rightarrow> error + bytes) \<Rightarrow> 'o Patch" where
  "CalculatePatch patch encode mutateFn diff =
     (case encode (Object (Info patch)) of
        Inl err \<Rightarrow> patch\<lparr>Err := Some err\<rparr>
      | Inr before \<Rightarrow>
          (case mutateFn (Info patch) of
             (info, Inl err) \<Rightarrow> patch\<lparr>Info := info, Before := before, Err := Some err\<rparr>
           | (info, Inr after) \<Rightarrow>
               (case diff before after (Object info) of
                  Inl err \<Rightarrow>
                    patch\<lparr>Info := info, Before := before, After := after, Err := Some err\<rparr>
                | Inr p \<Rightarrow>
                    patch\<lparr>Info := info, Before := before, After := after, Patch := p,
                          Err := None\<rparr>)))"

text \<open>
  The collaborators of \<^verbatim>\<open>RunSelector\<close>, all of them code outside the file:
  \<open>Do\<close> is \<^verbatim>\<open>o.builder.Do()\<close> with \<^verbatim>\<open>r.Err()\<close>; \<open>Encode\<close> is \<^verbatim>\<open>runtime.Encode\<close>
  with the internal-version JSON encoder; \<open>HelperPatch\<close> and \<open>HelperReplace\<close> are the calls
  on \<^verbatim>\<open>resource.NewHelper(info.Client, info.Mapping)\<close>; \<open>RecordChangeCause\<close> annotates
  the object it is given in place and returns an error; \<open>Refresh\<close> is \<^verbatim>\<open>info.Refresh\<close>,
  whose error the source drops.
\<close>

record 'o Env =
  Do :: "builder_call list \<Rightarrow> error + 'o Info list"
  Encode :: "'o \<Rightarrow> error + bytes"
  AsVersioned :: "'o Info \<Rightarrow> 'o"
  CreateTwoWayMergePatch :: "bytes \<Rightarrow> bytes \<Rightarrow> 'o \<Rightarrow> error + bytes"
  HelperPatch :: "'o Info \<Rightarrow> string \<Rightarrow> string \<Rightarrow> bytes \<Rightarrow> error + 'o"
  ContainsChangeCause :: "'o Info \<Rightarrow> bool"
  RecordChangeCause :: "'o \<Rightarrow> string \<Rightarrow> 'o \<times> error option"
  HelperReplace :: "'o Info \<Rightarrow> string \<Rightarrow> string \<Rightarrow> bool \<Rightarrow> 'o \<Rightarrow> error + 'o"
  Refresh :: "'o Info \<Rightarrow> 'o \<Rightarrow> bool \<Rightarrow> 'o Info"

text \<open>
  What a run does outside its own memory, in order: resolving the builder, the two
  remote calls, the refresh of the local object, and the call of the output sink.
\<close>

datatype 'o event =
    Resolved "builder_call list"
  | RemotePatch string string bytes
  | RemoteReplace string string 'o
  | Refreshed 'o
  | Printed 'o

text \<open>
  The mutation closure handed to \<^verbatim>\<open>CalculatePatch\<close>. \<^verbatim>\<open>patch.Info\<close> and \<^verbatim>\<open>info\<close>
  are one pointer, so the assignment to \<^verbatim>\<open>patch.Info.Object\<close> changes \<^verbatim>\<open>info.Object\<close>,
  which \<^verbatim>\<open>updateSelectorForObject\<close> then mutates. \<^verbatim>\<open>*o.selector\<close> panics on a nil
  selector.
\<close>

definition mutateFn ::
  "(('m, 'p, 's, 'k) Object, 'pf) SelectorOptions \<Rightarrow> ('m, 'p, 's, 'k) Object Env
     \<Rightarrow> ('m, 'p, 's, 'k) Object Info
     \<Rightarrow> ('m, 'p, 's, 'k) Object Info \<times> (error + bytes)" where
  "mutateFn opts env info =
     (let versioned = AsVersioned env info;
          info = info\<lparr>Object := versioned\<rparr>
      in case selector opts of
           None \<Rightarrow> (info, Inl (Panic ''nil pointer dereference''))
         | Some sel \<Rightarrow>
             (case updateSelectorForObject (Object info) sel of
                (obj, selectErr) \<Rightarrow>
                  (let info = info\<lparr>Object := obj\<rparr>
                   in case selectErr of
                        None \<Rightarrow> (info, Encode env (Object info))
                      | Some err \<Rightarrow> (info, Inl err))))"

text \<open>
  The end of the visit in remote mode: \<^verbatim>\<open>info.Refresh(patched, true)\<close> and the print
  of \<^verbatim>\<open>patch.Info.AsVersioned()\<close>, after the events \<open>evs\<close> so far.
\<close>

definition refresh_and_print ::
  "('o, 'pf) SelectorOptions \<Rightarrow> 'o Env \<Rightarrow> 'o Info \<Rightarrow> 'o \<Rightarrow> 'o event list
     \<Rightarrow> error option \<times> 'o event list" where
  "refresh_and_print opts env info patched evs =
     (let info = Refresh env info patched True;
          versioned = AsVersioned env info
      in (PrintObj opts versioned, evs @ [Refreshed patched, Printed versioned]))"

text \<open>
  The function \<^verbatim>\<open>RunSelector\<close> passes to \<^verbatim>\<open>r.Visit\<close>, for one \<^verbatim>\<open>info\<close>; its
  \<^verbatim>\<open>err\<close> parameter is never read. It returns the error of the visit and the events.
\<close>

definition visit ::
  "(('m, 'p, 's, 'k) Object, 'pf) SelectorOptions \<Rightarrow> ('m, 'p, 's, 'k) Object Env
     \<Rightarrow> ('m, 'p, 's, 'k) Object Info
     \<Rightarrow> error option \<times> ('m, 'p, 's, 'k) Object event list" where
  "visit opts env info =
     (let patch = \<lparr>Info = info, Before = [], After = [], Patch = [], Err = None\<rparr>;
          patch = CalculatePatch patch (Encode env) (mutateFn opts env)
                    (CreateTwoWayMergePatch env);
          info = Info patch
      in if Err patch \<noteq> None then (Err patch, [])
         else if local opts \<or> dryrun opts
         then (PrintObj opts (Object info), [Printed (Object info)])
         else
           (case HelperPatch env info (Namespace info) (Name info) (Patch patch) of
              Inl err \<Rightarrow> (Some err, [RemotePatch (Namespace info) (Name info) (Patch patch)])
            | Inr patched \<Rightarrow>
                (let evs = [RemotePatch (Namespace info) (Name info) (Patch patch)]
                 in if record_opt opts \<or> ContainsChangeCause env info
                    then
                      (case RecordChangeCause env patched (changeCause opts) of
                         (patched, None) \<Rightarrow>
                           (let evs = evs @ [RemoteReplace (Namespace info) (Name info) patched]
                            in case HelperReplace env info (Namespace info) (Name info)
                                      False patched of
                                 Inl err \<Rightarrow>
                                   (Some (ChangesCantBeRecorded (Resource info) (Name info) err),
                                    evs)
                               | Inr patched \<Rightarrow> refresh_and_print opts env info patched evs)
                       | (patched, Some err) \<Rightarrow> refresh_and_print opts env info patched evs)
                    else refresh_and_print opts env info patched evs)))"

text \<open>
  Modelled from the spec: \<^verbatim>\<open>Result.Visit\<close> of the resource builder is not in the
  file. "Visiting is sequential and independent: one object's terminal Failed state is
  recorded in the Batch Result and processing continues to the next object"; the batch
  result is "an ordered sequence of per-object outcomes".
\<close>

fun Visit :: "('i \<Rightarrow> error option \<times> 'e list) \<Rightarrow> 'i list \<Rightarrow> error option list \<times> 'e list" where
  "Visit fn [] = ([], [])"
| "Visit fn (info # infos) =
     (case fn info of
        (r, evs) \<Rightarrow> (case Visit fn infos of (rs, evs') \<Rightarrow> (r # rs, evs @ evs')))"

text \<open>
  Modelled from the spec: the error \<^verbatim>\<open>Result.Visit\<close> returns for a batch. "The caller
  receives a non-zero outcome if the Batch Result contains any Failed entry, even if
  other entries succeeded".
\<close>

definition Aggregate :: "error option list \<Rightarrow> error option" where
  "Aggregate results =
     (let errs = List.map_filter id results
      in if errs = [] then None else Some (Aggregated errs))"

definition RunSelector ::
  "(('m, 'p, 's, 'k) Object, 'pf) SelectorOptions \<Rightarrow> ('m, 'p, 's, 'k) Object Env
     \<Rightarrow> error option \<times> ('m, 'p, 's, 'k) Object event list" where
  "RunSelector opts env =
     (case Do env (builder opts) of
        Inl err \<Rightarrow> (Some err, [Resolved (builder opts)])
      | Inr infos \<Rightarrow>
          (case Visit (visit opts env) infos of
             (results, evs) \<Rightarrow> (Aggregate results, Resolved (builder opts) # evs)))"

text \<open>
  Modelled from the spec: \<^verbatim>\<open>cmdutil.CheckErr\<close> is not in the file. Configuration and
  parse errors "abort the whole invocation" and are "surfaced to the caller as the sole
  outcome": on an error the run ends with it and what would follow is not run; without
  an error the run goes on with \<open>continue\<close>.
\<close>

definition CheckErr ::
  "error option \<Rightarrow> error option \<times> 'e list \<Rightarrow> error option \<times> 'e list" where
  "CheckErr err continue = (case err of Some e \<Rightarrow> (Some e, []) | None \<Rightarrow> continue)"

text \<open>
  The \<^verbatim>\<open>Run\<close> function of the command: \<^verbatim>\<open>Complete\<close>, \<^verbatim>\<open>Validate\<close> and
  \<^verbatim>\<open>RunSelector\<close>, each under \<^verbatim>\<open>CheckErr\<close>. The last check ends the run either
  way, with the error and the events of \<^verbatim>\<open>RunSelector\<close>.
\<close>

definition Run ::
  "(('m, 'p, 's, 'k) Object, 'pf) SelectorOptions \<Rightarrow> (('m, 'p, 's, 'k) Object, 'pf) Factory
     \<Rightarrow> Cmd \<Rightarrow> string list \<Rightarrow> ('m, 'p, 's, 'k) Object Env
     \<Rightarrow> error option \<times> ('m, 'p, 's, 'k) Object event list" where
  "Run options f cmd args env =
     (case Complete options f cmd args of
        (opts, err) \<Rightarrow>
          CheckErr err
            (CheckErr (Validate opts)
               (RunSelector opts env)))"

section \<open>Concrete inputs\<close>

text \<open>
  The inputs at which the theorems below are instantiated. Metadata and status are
  strings, the rest of the spec is a port number, and an object of another kind is the
  name of its kind. \<open>parse_example\<close> agrees with the selector parser on the two
  expressions used: \<^verbatim>\<open>env=qa\<close> parses to an equality selector, and the unbalanced
  \<^verbatim>\<open>env in (qa\<close> is a parse error.
\<close>

definition svc_example :: "(string, nat, string) Service" where
  "svc_example = \<lparr>ObjectMeta = ''default/my-svc'',
                   Spec = \<lparr>Selector = Some [''a'' \<mapsto> ''1''], OtherSpecFields = 80\<rparr>,
                   Status = ''Active''\<rparr>"

definition sel_example :: LabelSelector where
  "sel_example = \<lparr>MatchLabels = Some [''b'' \<mapsto> ''2''], MatchExpressions = []\<rparr>"

definition sel_in_example :: LabelSelector where
  "sel_in_example =
     \<lparr>MatchLabels = Some [''b'' \<mapsto> ''2''],
      MatchExpressions = [\<lparr>Key = ''env'', Operator = ''In'', Values = [''qa'', ''prod'']\<rparr>]\<rparr>"

definition selector_qa :: LabelSelector where
  "selector_qa = \<lparr>MatchLabels = Some [''env'' \<mapsto> ''qa''], MatchExpressions = []\<rparr>"

definition parse_example :: "string \<Rightarrow> error + LabelSelector" where
  "parse_example expr =
     (if expr = ''env=qa'' then Inr selector_qa
      else Inl (External ''couldn't parse the selector string''))"

text \<open>
  The options as \<^verbatim>\<open>NewCmdSelector\<close> creates them: every field but the print flags
  has its zero value; calling the nil \<^verbatim>\<open>PrintObj\<close> would panic.
\<close>

definition options_example :: "((string, nat, string, string) Object, string) SelectorOptions" where
  "options_example =
     \<lparr>fileOptions = \<lparr>Filenames = [], Recursive = False\<rparr>,
      PrintFlags = ''selector updated'',
      local = False, dryrun = False, all = False, record_opt = False,
      changeCause = [], output_opt = [], resources = [], selector = None,
      PrintObj = (\<lambda>obj. Some (Panic ''nil PrintObj'')),
      builder = []\<rparr>"

definition factory_example :: "((string, nat, string, string) Object, string) Factory" where
  "factory_example =
     \<lparr>DefaultNamespace = Inr (''default'', False),
      Command = ''kubectl set selector'',
      NewBuilder = [],
      ParseToLabelSelector = parse_example,
      PrintFlagsComplete = (\<lambda>flags template. flags @ '' (dry run)''),
      ToPrinter = (\<lambda>flags. Inr (\<lambda>obj. None))\<rparr>"

definition cmd_example :: Cmd where
  "cmd_example =
     \<lparr>flag_local = False, flag_all = False, flag_record = False, flag_dry_run = False,
      flag_output = [], flag_include_uninitialized = False\<rparr>"

definition cmd_local :: Cmd where
  "cmd_local = cmd_example\<lparr>flag_local := True\<rparr>"

text \<open>A factory whose namespace lookup fails.\<close>

definition factory_no_namespace :: "((string, nat, string, string) Object, string) Factory" where
  "factory_no_namespace =
     factory_example\<lparr>DefaultNamespace := Inl (External ''invalid configuration'')\<rparr>"

text \<open>
  A Service selecting \<^verbatim>\<open>env=prod\<close>, the same Service selecting \<^verbatim>\<open>env=qa\<close>, and
  collaborators for one visit of it: the encoder writes \<^verbatim>\<open>{}\<close> for every object, the
  difference is the modified form, the server accepts the patch and answers with the
  object it was sent for, and refuses the replace with a conflict.
\<close>

definition service_prod :: "(string, nat, string) Service" where
  "service_prod = \<lparr>ObjectMeta = ''default/my-svc'',
                    Spec = \<lparr>Selector = Some [''env'' \<mapsto> ''prod''], OtherSpecFields = 80\<rparr>,
                    Status = ''Active''\<rparr>"

definition service_qa :: "(string, nat, string) Service" where
  "service_qa = \<lparr>ObjectMeta = ''default/my-svc'',
                  Spec = \<lparr>Selector = Some [''env'' \<mapsto> ''qa''], OtherSpecFields = 80\<rparr>,
                  Status = ''Active''\<rparr>"

definition info_example :: "(string, nat, string, string) Object Info" where
  "info_example =
     \<lparr>Object = ServiceObj service_prod, Namespace = ''default'', Name = ''my-svc'',
      Resource = ''services''\<rparr>"

definition env_example :: "(string, nat, string, string) Object Env" where
  "env_example =
     \<lparr>Do = (\<lambda>b. Inr [info_example]),
      Encode = (\<lambda>obj. Inr ''{}''),
      AsVersioned = Object,
      CreateTwoWayMergePatch = (\<lambda>before after obj. Inr after),
      HelperPatch = (\<lambda>info namespace name patch. Inr (Object info)),
      ContainsChangeCause = (\<lambda>info. False),
      RecordChangeCause = (\<lambda>obj cause. (obj, None)),
      HelperReplace = (\<lambda>info namespace name overwrite obj. Inl (External ''conflict'')),
      Refresh = (\<lambda>info obj ignoreError. info\<lparr>Object := obj\<rparr>)\<rparr>"

text \<open>
  Completed options: local mode with a printer that succeeds, local mode with a printer
  whose writer fails, and remote mode with the record flag set.
\<close>

definition options_local :: "((string, nat, string, string) Object, string) SelectorOptions" where
  "options_local = options_example\<lparr>local := True, selector := Some selector_qa,
                                    PrintObj := (\<lambda>obj. None)\<rparr>"

definition options_local_broken_pipe ::
  "((string, nat, string, string) Object, string) SelectorOptions" where
  "options_local_broken_pipe =
     options_local\<lparr>PrintObj := (\<lambda>obj. Some (External ''write: broken pipe''))\<rparr>"

definition options_record :: "((string, nat, string, string) Object, string) SelectorOptions" where
  "options_record = options_example\<lparr>record_opt := True, selector := Some selector_qa,
                                     changeCause := ''kubectl set selector'',
                                     PrintObj := (\<lambda>obj. None)\<rparr>"

section \<open>Facts about the patch calculation\<close>

lemma CalculatePatch_ok:
  assumes "Err (CalculatePatch patch encode mutate diff) = None"
  shows "\<exists>before info after p.
           encode (Object (Info patch)) = Inr before
         \<and> mutate (Info patch) = (info, Inr after)
         \<and> diff before after (Object info) = Inr p
         \<and> CalculatePatch patch encode mutate diff
             = patch\<lparr>Info := info, Before := before, After := after, Patch := p, Err := None\<rparr>"
  using assms by (auto simp add: CalculatePatch_def split: sum.splits prod.splits)

lemma mutateFn_ok:
  assumes "mutateFn opts env info = (info', Inr after)"
  shows "\<exists>sel obj. selector opts = Some sel
           \<and> updateSelectorForObject (AsVersioned env info) sel = (obj, None)
           \<and> info' = info\<lparr>Object := obj\<rparr> \<and> Encode env obj = Inr after"
  using assms
  by (auto simp add: mutateFn_def Let_def split: option.splits prod.splits)

lemma update_example:
  "updateSelectorForObject (AsVersioned env_example info_example) selector_qa
     = (ServiceObj service_qa, None)"
  by (simp add: env_example_def info_example_def selector_qa_def service_prod_def
      service_qa_def copyOldSelector_def entries_def)

lemma mutate_example:
  "selector opts = Some selector_qa \<Longrightarrow>
   mutateFn opts env_example info_example
     = (info_example\<lparr>Object := ServiceObj service_qa\<rparr>, Inr ''{}'')"
  by (simp add: mutateFn_def update_example) (simp add: env_example_def)

lemma env_example_codec:
  "Encode env_example obj = Inr ''{}''"
  "CreateTwoWayMergePatch env_example before after obj = Inr after"
  by (simp_all add: env_example_def)

lemma calculate_example:
  "selector opts = Some selector_qa \<Longrightarrow>
   CalculatePatch \<lparr>Info = info_example, Before = [], After = [], Patch = [], Err = None\<rparr>
     (Encode env_example) (mutateFn opts env_example) (CreateTwoWayMergePatch env_example)
   = \<lparr>Info = info_example\<lparr>Object := ServiceObj service_qa\<rparr>, Before = ''{}'', After = ''{}'',
      Patch = ''{}'', Err = None\<rparr>"
  by (simp add: CalculatePatch_def mutate_example env_example_codec)

section \<open>The object mutator: replacement, rejection, dispatch, frame\<close>

text \<open>
  C1. On a Service and a selector without match expressions,
  \<^verbatim>\<open>updateSelectorForObject\<close> returns no error, and afterwards the selector of the
  Service is an allocated map holding exactly what \<^verbatim>\<open>MatchLabels\<close> holds (nothing
  when \<^verbatim>\<open>MatchLabels\<close> is nil). The result is the same whatever the selector held
  before the call: nothing of the prior selector is kept (total replacement, no merge).
\<close>

theorem total_replacement:
  assumes "MatchExpressions sel = []"
  shows "\<exists>t'. updateSelectorForObject (ServiceObj t) sel = (ServiceObj t', None)
           \<and> Selector (Spec t')
               = Some (case MatchLabels sel of None \<Rightarrow> Map.empty | Some new \<Rightarrow> new)
           \<and> (\<forall>old. updateSelectorForObject
                        (ServiceObj (t\<lparr>Spec := (Spec t)\<lparr>Selector := old\<rparr>\<rparr>)) sel
                      = (ServiceObj t', None))"
  using assms by (simp add: copyOldSelector_def entries_def split: option.splits)

theorem total_replacement_witness:
  "MatchExpressions sel_example = []
   \<and> MatchLabels sel_example = Some [''b'' \<mapsto> ''2'']
   \<and> Selector (Spec svc_example) = Some [''a'' \<mapsto> ''1'']
   \<and> (\<exists>t'. updateSelectorForObject
              (ServiceObj svc_example :: (string, nat, string, string) Object) sel_example
             = (ServiceObj t', None)
           \<and> Selector (Spec t') = Some [''b'' \<mapsto> ''2'']
           \<and> the (Selector (Spec t')) ''a'' = None)"
proof -
  have h: "MatchExpressions sel_example = []" by (simp add: sel_example_def)
  have m: "MatchLabels sel_example = Some [''b'' \<mapsto> ''2'']" by (simp add: sel_example_def)
  have o: "Selector (Spec svc_example) = Some [''a'' \<mapsto> ''1'']" by (simp add: svc_example_def)
  from total_replacement [OF h, of svc_example]
  obtain t' where
    u: "updateSelectorForObject
       (ServiceObj svc_example :: (string, nat, string, string) Object) sel_example
       = (ServiceObj t', None)" and
    s: "Selector (Spec t')
          = Some (case MatchLabels sel_example of None \<Rightarrow> Map.empty | Some new \<Rightarrow> new)"
    by blast
  from s m have s': "Selector (Spec t') = Some [''b'' \<mapsto> ''2'']" by simp
  then have a: "the (Selector (Spec t')) ''a'' = None" by simp
  from h m o u s' a show ?thesis by blast
qed

text \<open>
  C2, as the code has it. With a non-empty list of match expressions the call fails for
  an object of every kind, whatever \<^verbatim>\<open>MatchLabels\<close> holds; the error names the
  expressions when the object is a Service, and is the unsupported-kind error when the
  object is of any other kind, because the selector is only looked at inside the Service
  case of the type switch.
\<close>

theorem match_expressions_rejected:
  assumes "MatchExpressions sel \<noteq> []"
  shows "snd (updateSelectorForObject (ServiceObj t :: ('m, 'p, 's, 'k) Object) sel)
           = Some (MatchExpressionNotSupported (MatchExpressions sel))
         \<and> snd (updateSelectorForObject (OtherKind k :: ('m, 'p, 's, 'k) Object) sel)
           = Some (Errorf ''setting a selector is only supported for Services'')"
  using assms by (simp add: copyOldSelector_def)

theorem match_expressions_rejected_witness:
  "MatchExpressions sel_in_example \<noteq> []
   \<and> snd (updateSelectorForObject
            (ServiceObj svc_example :: (string, nat, string, string) Object) sel_in_example)
       = Some (MatchExpressionNotSupported
                [\<lparr>Key = ''env'', Operator = ''In'', Values = [''qa'', ''prod'']\<rparr>])
   \<and> snd (updateSelectorForObject
            (OtherKind ''Deployment'' :: (string, nat, string, string) Object) sel_in_example)
       = Some (Errorf ''setting a selector is only supported for Services'')"
proof -
  have h: "MatchExpressions sel_in_example \<noteq> []" by (simp add: sel_in_example_def)
  show ?thesis
    using h match_expressions_rejected [OF h, of svc_example "''Deployment''"]
    by (simp add: sel_in_example_def)
qed

text \<open>
  C2, as the spec states it, fails: for a Deployment and the selector
  \<^verbatim>\<open>b=2, env in (qa, prod)\<close> the error is not the one that names the expressions.
\<close>

theorem match_expressions_other_kind_counterexample:
  "MatchExpressions sel_in_example \<noteq> []
   \<and> snd (updateSelectorForObject
            (OtherKind ''Deployment'' :: (string, nat, string, string) Object) sel_in_example)
       \<noteq> Some (MatchExpressionNotSupported (MatchExpressions sel_in_example))"
  by (simp add: sel_in_example_def)

text \<open>
  C3. For an object of any kind other than Service and any selector, the call returns
  the error "setting a selector is only supported for Services".
\<close>

theorem unsupported_kind:
  "snd (updateSelectorForObject (OtherKind k) sel)
     = Some (Errorf ''setting a selector is only supported for Services'')"
  by simp

theorem unsupported_kind_witness:
  "snd (updateSelectorForObject
          (OtherKind ''Deployment'' :: (string, nat, string, string) Object) sel_example)
     = Some (Errorf ''setting a selector is only supported for Services'')"
  using unsupported_kind [of "''Deployment''" sel_example] by simp

text \<open>
  C5. A call on a Service that returns no error leaves a Service whose metadata, status
  and spec fields other than the selector are those it had: the Service after the call
  is the Service before it with the selector replaced. A call on an object of another
  kind fails and leaves the object as it was.
\<close>

theorem only_selector_changes:
  "(snd (updateSelectorForObject (ServiceObj t :: ('m, 'p, 's, 'k) Object) sel) = None \<longrightarrow>
      (\<exists>t'. fst (updateSelectorForObject (ServiceObj t :: ('m, 'p, 's, 'k) Object) sel)
               = ServiceObj t'
           \<and> ObjectMeta t' = ObjectMeta t
           \<and> OtherSpecFields (Spec t') = OtherSpecFields (Spec t)
           \<and> Status t' = Status t
           \<and> t' = t\<lparr>Spec := (Spec t)\<lparr>Selector := Selector (Spec t')\<rparr>\<rparr>))
   \<and> snd (updateSelectorForObject (OtherKind k :: ('m, 'p, 's, 'k) Object) sel) \<noteq> None
   \<and> fst (updateSelectorForObject (OtherKind k :: ('m, 'p, 's, 'k) Object) sel) = OtherKind k"
  by (simp add: copyOldSelector_def split: prod.splits)

theorem only_selector_changes_witness:
  "snd (updateSelectorForObject
          (ServiceObj svc_example :: (string, nat, string, string) Object) sel_example) = None
   \<and> (\<exists>t'. fst (updateSelectorForObject
                  (ServiceObj svc_example :: (string, nat, string, string) Object) sel_example)
               = ServiceObj t'
           \<and> ObjectMeta t' = ''default/my-svc''
           \<and> OtherSpecFields (Spec t') = 80
           \<and> Status t' = ''Active'')
   \<and> fst (updateSelectorForObject
            (OtherKind ''Deployment'' :: (string, nat, string, string) Object) sel_example)
       = OtherKind ''Deployment''"
proof -
  have h: "snd (updateSelectorForObject
          (ServiceObj svc_example :: (string, nat, string, string) Object) sel_example) = None"
    by (simp add: sel_example_def copyOldSelector_def)
  show ?thesis
    using h only_selector_changes [of svc_example sel_example "''Deployment''"]
    by (auto simp add: svc_example_def)
qed

section \<open>Arguments and validation: the split and the configuration errors\<close>

text \<open>
  C9. Without arguments \<^verbatim>\<open>getResourcesAndSelector\<close> returns the empty resource list,
  a nil selector and no error. With at least one argument it returns all arguments but
  the last as the resources and the parse of the last argument as the selector, and its
  error is the error of that parse, so it fails exactly when the parse fails.
\<close>

theorem getResourcesAndSelector_split:
  "getResourcesAndSelector parse [] = ([], None, None)
   \<and> (args \<noteq> [] \<longrightarrow>
        getResourcesAndSelector parse args =
          (butlast args,
           (case parse (last args) of Inl err \<Rightarrow> None | Inr s \<Rightarrow> Some s),
           (case parse (last args) of Inl err \<Rightarrow> Some err | Inr s \<Rightarrow> None)))"
  by (simp add: getResourcesAndSelector_def butlast_conv_take last_conv_nth split: sum.splits)

theorem getResourcesAndSelector_split_witness:
  "[''services'', ''my-svc'', ''env=qa''] \<noteq> []
   \<and> getResourcesAndSelector parse_example [''services'', ''my-svc'', ''env=qa'']
       = ([''services'', ''my-svc''], Some selector_qa, None)
   \<and> getResourcesAndSelector parse_example [''services'', ''env in (qa'']
       = ([''services''], None, Some (External ''couldn't parse the selector string''))
   \<and> getResourcesAndSelector parse_example [] = ([], None, None)"
  using getResourcesAndSelector_split [of parse_example "[''services'', ''my-svc'', ''env=qa'']"]
    getResourcesAndSelector_split [of parse_example "[''services'', ''env in (qa'']"]
  by (simp add: parse_example_def)

text \<open>
  C8. \<^verbatim>\<open>Validate\<close> returns an error exactly when the resource list and the filename
  list are both empty, or the selector is nil; the error is one of its two fixed
  messages. When \<^verbatim>\<open>Complete\<close> has succeeded and \<^verbatim>\<open>Validate\<close> fails, the run ends
  with that error and nothing has been resolved, patched or printed.
\<close>

theorem Validate_fails_iff:
  "(Validate opts \<noteq> None \<longleftrightarrow>
      (resources opts = [] \<and> Filenames (fileOptions opts) = []) \<or> selector opts = None)
   \<and> (\<forall>err. Validate opts = Some err \<longrightarrow> (\<exists>msg. err = Errorf msg))
   \<and> (snd (Complete options f cmd args) = None
        \<and> Validate (fst (Complete options f cmd args)) \<noteq> None \<longrightarrow>
      Run options f cmd args env = (Validate (fst (Complete options f cmd args)), []))"
  by (auto simp add: Validate_def IsFilenameSliceEmpty_def Run_def CheckErr_def
      split: prod.splits option.splits)

theorem Validate_fails_iff_witness:
  "snd (Complete options_example factory_example cmd_example []) = None
   \<and> Validate (fst (Complete options_example factory_example cmd_example [])) = Some (Errorf
        ''one or more resources must be specified as <resource> <name> or <resource>/<name>'')
   \<and> Run options_example factory_example cmd_example [] env_example = (Some (Errorf
        ''one or more resources must be specified as <resource> <name> or <resource>/<name>''), [])
   \<and> Validate (options_example\<lparr>resources := [''services/my-svc'']\<rparr>)
       = Some (Errorf ''one selector is required'')
   \<and> Validate (options_example\<lparr>resources := [''services/my-svc''], selector := Some selector_qa\<rparr>)
       = None"
proof -
  have c: "snd (Complete options_example factory_example cmd_example []) = None"
    by (simp add: Complete_def Complete_printer_def getResourcesAndSelector_def
        options_example_def factory_example_def cmd_example_def)
  have v: "Validate (fst (Complete options_example factory_example cmd_example [])) = Some (Errorf
        ''one or more resources must be specified as <resource> <name> or <resource>/<name>'')"
    by (simp add: Complete_def Complete_printer_def getResourcesAndSelector_def Validate_def
        IsFilenameSliceEmpty_def options_example_def factory_example_def cmd_example_def)
  have w1: "Validate (options_example\<lparr>resources := [''services/my-svc'']\<rparr>)
       = Some (Errorf ''one selector is required'')"
    using Validate_fails_iff [THEN conjunct1,
        of "options_example\<lparr>resources := [''services/my-svc'']\<rparr>"]
    by (simp add: Validate_def IsFilenameSliceEmpty_def options_example_def)
  have w2: "Validate (options_example\<lparr>resources := [''services/my-svc''],
                 selector := Some selector_qa\<rparr>) = None"
    using Validate_fails_iff [THEN conjunct1,
        of "options_example\<lparr>resources := [''services/my-svc''], selector := Some selector_qa\<rparr>"]
    by (simp add: options_example_def)
  show ?thesis
    using c v w1 w2
      Validate_fails_iff [THEN conjunct2, THEN conjunct2,
        of options_example factory_example cmd_example "[]" env_example]
    by simp
qed

section \<open>Completing the options in local mode\<close>

text \<open>
  C10, as the code has it. In local mode with at least one argument before the
  selector expression, \<^verbatim>\<open>Complete\<close> always fails, and the run ends with its error
  before anything is resolved, patched or printed. The error is that of the namespace
  lookup when the lookup fails; otherwise that of the parse of the last argument when
  the parse fails; and \<^verbatim>\<open>LocalResourceError\<close> when both have succeeded.
\<close>

theorem local_resources_fail:
  assumes "flag_local cmd" and "2 \<le> length args"
  shows "snd (Complete options f cmd args) \<noteq> None
         \<and> Run options f cmd args env = (snd (Complete options f cmd args), [])
         \<and> snd (Complete options f cmd args)
             = Some (case DefaultNamespace f of
                       Inl err \<Rightarrow> err
                     | Inr ns \<Rightarrow>
                         (case ParseToLabelSelector f (last args) of
                            Inl err \<Rightarrow> err
                          | Inr s \<Rightarrow> LocalResourceError))"
proof -
  have a: "args \<noteq> []"
    using assms(2) by auto
  have "length (butlast args) = length args - 1"
    by simp
  with assms(2) have b: "butlast args \<noteq> []"
    by (cases "butlast args") simp_all
  have g: "getResourcesAndSelector (ParseToLabelSelector f) args =
          (butlast args,
           (case ParseToLabelSelector f (last args) of Inl err \<Rightarrow> None | Inr s \<Rightarrow> Some s),
           (case ParseToLabelSelector f (last args) of Inl err \<Rightarrow> Some err | Inr s \<Rightarrow> None))"
    using a
    by (simp add: getResourcesAndSelector_def butlast_conv_take last_conv_nth split: sum.splits)
  have e: "snd (Complete options f cmd args)
             = Some (case DefaultNamespace f of
                       Inl err \<Rightarrow> err
                     | Inr ns \<Rightarrow>
                         (case ParseToLabelSelector f (last args) of
                            Inl err \<Rightarrow> err
                          | Inr s \<Rightarrow> LocalResourceError))"
    using assms b
    by (cases "DefaultNamespace f"; cases "ParseToLabelSelector f (last args)")
       (auto simp add: Complete_def g Let_def split: prod.splits)
  then have c: "snd (Complete options f cmd args) \<noteq> None"
    by simp
  have r: "Run options f cmd args env = (snd (Complete options f cmd args), [])"
    using c by (cases "Complete options f cmd args") (auto simp add: Run_def CheckErr_def)
  from c r e show ?thesis by blast
qed

theorem local_resources_fail_witness:
  "flag_local cmd_local \<and> 2 \<le> length [''services/my-svc'', ''env=qa'']
   \<and> snd (Complete options_example factory_example cmd_local [''services/my-svc'', ''env=qa''])
       = Some LocalResourceError
   \<and> Run options_example factory_example cmd_local [''services/my-svc'', ''env=qa''] env_example
       = (Some LocalResourceError, [])
   \<and> 2 \<le> length [''services/my-svc'', ''env in (qa'']
   \<and> Run options_example factory_example cmd_local [''services/my-svc'', ''env in (qa'']
         env_example
       = (Some (External ''couldn't parse the selector string''), [])
   \<and> Run options_example factory_no_namespace cmd_local [''services/my-svc'', ''env=qa'']
         env_example
       = (Some (External ''invalid configuration''), [])"
proof -
  have 1: "flag_local cmd_local" by (simp add: cmd_local_def)
  have 2: "2 \<le> length [''services/my-svc'', ''env=qa'']" by simp
  have 3: "2 \<le> length [''services/my-svc'', ''env in (qa'']" by simp
  have n: "DefaultNamespace factory_example = Inr (''default'', False)"
    by (simp add: factory_example_def)
  have p: "ParseToLabelSelector factory_example ''env=qa''
            
             = Inr selector_qa"
    by (simp add: factory_example_def parse_example_def)
  have q: "ParseToLabelSelector factory_example ''env in (qa''
            
             = Inl (External ''couldn't parse the selector string'')"
    by (simp add: factory_example_def parse_example_def)
  have m: "DefaultNamespace factory_no_namespace = Inl (External ''invalid configuration'')"
    by (simp add: factory_no_namespace_def)
  have c: "snd (Complete options_example factory_example cmd_local
                  [''services/my-svc'', ''env=qa'']) = Some LocalResourceError"
    using local_resources_fail [OF 1 2, of options_example factory_example env_example]
    by (simp add: n p)
  have r: "Run options_example factory_example cmd_local [''services/my-svc'', ''env=qa'']
             env_example = (Some LocalResourceError, [])"
    using local_resources_fail [OF 1 2, of options_example factory_example env_example]
    by (simp add: n p)
  have r2: "Run options_example factory_example cmd_local [''services/my-svc'', ''env in (qa'']
             env_example = (Some (External ''couldn't parse the selector string''), [])"
    using local_resources_fail [OF 1 3, of options_example factory_example env_example]
    by (simp add: n q)
  have r3: "Run options_example factory_no_namespace cmd_local [''services/my-svc'', ''env=qa'']
             env_example = (Some (External ''invalid configuration''), [])"
    using local_resources_fail [OF 1 2, of options_example factory_no_namespace env_example]
    by (simp add: m)
  from 1 2 3 c r r2 r3 show ?thesis by blast
qed

text \<open>
  C10, as stated, fails: in local mode with the arguments \<^verbatim>\<open>services/my-svc\<close> and the
  unbalanced expression \<^verbatim>\<open>env in (qa\<close>, \<^verbatim>\<open>Complete\<close> returns the parse error, not
  \<^verbatim>\<open>LocalResourceError\<close>.
\<close>

theorem local_resources_parse_error_counterexample:
  "flag_local cmd_local \<and> 2 \<le> length [''services/my-svc'', ''env in (qa'']
   \<and> snd (Complete options_example factory_example cmd_local [''services/my-svc'', ''env in (qa''])
       = Some (External ''couldn't parse the selector string'')
   \<and> snd (Complete options_example factory_example cmd_local [''services/my-svc'', ''env in (qa''])
       \<noteq> Some LocalResourceError"
  by (simp add: Complete_def getResourcesAndSelector_def cmd_local_def cmd_example_def
      factory_example_def parse_example_def)

section \<open>One visit: local mode and the audit follow-up\<close>

text \<open>
  C6, as the code has it. In local or dry-run mode, when the patch calculation of an
  object has succeeded, the selector is set and the mutation of the versioned object
  returned no error; the visit hands that mutated object to the output sink and does
  nothing else (no remote patch, no replace, no refresh), and the result of the visit is
  the result of the output sink.
\<close>

theorem local_mode_prints:
  assumes "local opts \<or> dryrun opts"
    and "Err (CalculatePatch \<lparr>Info = info, Before = [], After = [], Patch = [], Err = None\<rparr>
               (Encode env) (mutateFn opts env) (CreateTwoWayMergePatch env)) = None"
  shows "\<exists>sel obj. selector opts = Some sel
           \<and> updateSelectorForObject (AsVersioned env info) sel = (obj, None)
           \<and> visit opts env info = (PrintObj opts obj, [Printed obj])"
proof -
  from CalculatePatch_ok [OF assms(2)] obtain before info' after p where
    m: "mutateFn opts env info = (info', Inr after)" and
    c: "CalculatePatch \<lparr>Info = info, Before = [], After = [], Patch = [], Err = None\<rparr>
          (Encode env) (mutateFn opts env) (CreateTwoWayMergePatch env)
        = \<lparr>Info = info', Before = before, After = after, Patch = p, Err = None\<rparr>"
    by auto
  from mutateFn_ok [OF m] obtain sel obj where
    s: "selector opts = Some sel" and
    u: "updateSelectorForObject (AsVersioned env info) sel = (obj, None)" and
    i: "info' = info\<lparr>Object := obj\<rparr>"
    by blast
  have "visit opts env info = (PrintObj opts obj, [Printed obj])"
    using assms(1) c i by (simp add: visit_def Let_def)
  with s u show ?thesis by blast
qed

theorem local_mode_prints_witness:
  "(local options_local \<or> dryrun options_local)
   \<and> Err (CalculatePatch \<lparr>Info = info_example, Before = [], After = [], Patch = [], Err = None\<rparr>
           (Encode env_example) (mutateFn options_local env_example)
           (CreateTwoWayMergePatch env_example)) = None
   \<and> visit options_local env_example info_example = (None, [Printed (ServiceObj service_qa)])"
proof -
  have s: "selector options_local = Some selector_qa"
    by (simp add: options_local_def)
  have l: "local options_local \<or> dryrun options_local"
    by (simp add: options_local_def)
  have e: "Err (CalculatePatch
             \<lparr>Info = info_example, Before = [], After = [], Patch = [], Err = None\<rparr>
             (Encode env_example) (mutateFn options_local env_example)
             (CreateTwoWayMergePatch env_example)) = None"
    by (simp add: calculate_example [OF s])
  from local_mode_prints [OF l e] s update_example
  have "visit options_local env_example info_example
          = (PrintObj options_local (ServiceObj service_qa), [Printed (ServiceObj service_qa)])"
    by auto
  then show ?thesis using l e by (simp add: options_local_def)
qed

text \<open>
  C6, as stated, fails: in local mode, with a patch calculation that succeeds and an
  output sink whose writer fails, the visit returns the error of the sink.
\<close>

theorem local_mode_printer_error_counterexample:
  "(local options_local_broken_pipe \<or> dryrun options_local_broken_pipe)
   \<and> Err (CalculatePatch \<lparr>Info = info_example, Before = [], After = [], Patch = [], Err = None\<rparr>
           (Encode env_example) (mutateFn options_local_broken_pipe env_example)
           (CreateTwoWayMergePatch env_example)) = None
   \<and> fst (visit options_local_broken_pipe env_example info_example)
       = Some (External ''write: broken pipe'')"
proof -
  have s: "selector options_local_broken_pipe = Some selector_qa"
    by (simp add: options_local_broken_pipe_def options_local_def)
  show ?thesis
    by (simp add: visit_def calculate_example [OF s])
       (simp add: options_local_broken_pipe_def options_local_def)
qed

text \<open>
  C7, as the code has it. In remote mode, after a patch calculation and a remote patch
  that succeeded, when the follow-up runs (record flag set, or a change cause already
  on the object), the annotation succeeds and the replace fails, the visit returns the
  error "changes to <resource>/<name> can't be recorded" carrying the cause. The remote
  calls made are the patch and the replace and nothing after them: the patch is not
  reverted, the local object is not refreshed, and the output sink is not called.
\<close>

theorem replace_failure_fails_visit:
  assumes "\<not> local opts" and "\<not> dryrun opts"
    and "CalculatePatch \<lparr>Info = info, Before = [], After = [], Patch = [], Err = None\<rparr>
           (Encode env) (mutateFn opts env) (CreateTwoWayMergePatch env) = patch"
    and "Err patch = None"
    and "HelperPatch env (Info patch) (Namespace (Info patch)) (Name (Info patch)) (Patch patch)
           = Inr patched"
    and "record_opt opts \<or> ContainsChangeCause env (Info patch)"
    and "RecordChangeCause env patched (changeCause opts) = (annotated, None)"
    and "HelperReplace env (Info patch) (Namespace (Info patch)) (Name (Info patch)) False
           annotated = Inl err"
  shows "visit opts env info =
           (Some (ChangesCantBeRecorded (Resource (Info patch)) (Name (Info patch)) err),
            [RemotePatch (Namespace (Info patch)) (Name (Info patch)) (Patch patch),
             RemoteReplace (Namespace (Info patch)) (Name (Info patch)) annotated])"
  using assms by (simp add: visit_def Let_def)

theorem replace_failure_fails_visit_witness:
  "\<not> local options_record \<and> \<not> dryrun options_record
   \<and> Err (CalculatePatch \<lparr>Info = info_example, Before = [], After = [], Patch = [], Err = None\<rparr>
           (Encode env_example) (mutateFn options_record env_example)
           (CreateTwoWayMergePatch env_example)) = None
   \<and> HelperPatch env_example (info_example\<lparr>Object := ServiceObj service_qa\<rparr>)
         ''default'' ''my-svc'' ''{}'' = Inr (ServiceObj service_qa)
   \<and> record_opt options_record
   \<and> RecordChangeCause env_example (ServiceObj service_qa) (changeCause options_record)
       = (ServiceObj service_qa, None)
   \<and> HelperReplace env_example (info_example\<lparr>Object := ServiceObj service_qa\<rparr>)
         ''default'' ''my-svc'' False (ServiceObj service_qa) = Inl (External ''conflict'')
   \<and> visit options_record env_example info_example =
       (Some (ChangesCantBeRecorded ''services'' ''my-svc'' (External ''conflict'')),
        [RemotePatch ''default'' ''my-svc'' ''{}'',
         RemoteReplace ''default'' ''my-svc'' (ServiceObj service_qa)])"
proof -
  have s: "selector options_record = Some selector_qa"
    by (simp add: options_record_def)
  let ?patch = "\<lparr>Info = info_example\<lparr>Object := ServiceObj service_qa\<rparr>, Before = ''{}'',
                  After = ''{}'', Patch = ''{}'', Err = None\<rparr>"
  have 1: "\<not> local options_record" and 2: "\<not> dryrun options_record"
    by (simp_all add: options_record_def options_example_def)
  have 4: "Err ?patch = None" by simp
  have 5: "HelperPatch env_example (Info ?patch) (Namespace (Info ?patch)) (Name (Info ?patch))
             (Patch ?patch) = Inr (ServiceObj service_qa)"
    by (simp add: env_example_def)
  have 6: "record_opt options_record \<or> ContainsChangeCause env_example (Info ?patch)"
    by (simp add: options_record_def)
  have 7: "RecordChangeCause env_example (ServiceObj service_qa) (changeCause options_record)
             = (ServiceObj service_qa, None)"
    by (simp add: env_example_def)
  have 8: "HelperReplace env_example (Info ?patch) (Namespace (Info ?patch)) (Name (Info ?patch))
             False (ServiceObj service_qa) = Inl (External ''conflict'')"
    by (simp add: env_example_def)
  have v: "visit options_record env_example info_example =
       (Some (ChangesCantBeRecorded ''services'' ''my-svc'' (External ''conflict'')),
        [RemotePatch ''default'' ''my-svc'' ''{}'',
         RemoteReplace ''default'' ''my-svc'' (ServiceObj service_qa)])"
    using replace_failure_fails_visit [OF 1 2 calculate_example [OF s] 4 5 6 7 8]
    by (simp add: info_example_def)
  have r: "record_opt options_record"
    by (simp add: options_record_def)
  have e: "Err (CalculatePatch
             \<lparr>Info = info_example, Before = [], After = [], Patch = [], Err = None\<rparr>
             (Encode env_example) (mutateFn options_record env_example)
             (CreateTwoWayMergePatch env_example)) = None"
    by (simp add: calculate_example [OF s])
  have p: "HelperPatch env_example (info_example\<lparr>Object := ServiceObj service_qa\<rparr>)
             ''default'' ''my-svc'' ''{}'' = Inr (ServiceObj service_qa)"
    by (simp add: env_example_def)
  have q: "HelperReplace env_example (info_example\<lparr>Object := ServiceObj service_qa\<rparr>)
             ''default'' ''my-svc'' False (ServiceObj service_qa) = Inl (External ''conflict'')"
    by (simp add: env_example_def)
  from 1 2 e p r 7 q v show ?thesis by blast
qed

text \<open>
  C7, as stated, fails: with the record flag set and a server that accepts the patch
  and refuses the replace, the visit returns an error, and the events of the visit are
  the two remote calls, without a call of the output sink.
\<close>

theorem replace_failure_counterexample:
  "fst (visit options_record env_example info_example) \<noteq> None
   \<and> snd (visit options_record env_example info_example)
       = [RemotePatch ''default'' ''my-svc'' ''{}'',
          RemoteReplace ''default'' ''my-svc'' (ServiceObj service_qa)]
   \<and> Printed (ServiceObj service_qa)
       \<notin> set (snd (visit options_record env_example info_example))"
proof -
  have s: "selector options_record = Some selector_qa"
    by (simp add: options_record_def)
  have "visit options_record env_example info_example =
     (Some (ChangesCantBeRecorded ''services'' ''my-svc'' (External ''conflict'')),
      [RemotePatch ''default'' ''my-svc'' ''{}'',
       RemoteReplace ''default'' ''my-svc'' (ServiceObj service_qa)])"
    by (simp add: visit_def calculate_example [OF s])
       (simp add: options_record_def options_example_def env_example_def info_example_def)
  then show ?thesis by simp
qed

end
